theory Spec2Isabelle
  imports Main
begin

section \<open>Referee planner: tables, load/save, report and the password check\<close>

text \<open>
  A shallow embedding of \<^verbatim>\<open>dash.py\<close>. The program keeps a table of events in a
  spreadsheet file, normalises it when loading (\<^verbatim>\<open>load_data\<close>), writes it back
  (\<^verbatim>\<open>save_data\<close>), renders it as a document (\<^verbatim>\<open>generate_pdf\<close>) and guards the two
  writing actions of the page by comparing a typed password with a configured one.

  The table library (pandas), the spreadsheet reader and writer and the document
  renderer are not part of the program. They are modelled by the part of their
  behaviour that the program relies on; what they compute on values the program does
  not inspect (parsing the dates of a column, printing a float, encoding and decoding
  the cells of the file) is a parameter of the model.
\<close>

subsection \<open>Cell values\<close>

text \<open>
  A point in time with the fields of \<^verbatim>\<open>datetime.datetime\<close> and \<^verbatim>\<open>pandas.Timestamp\<close>.
\<close>

record timestamp =
  year :: nat
  month :: nat
  day :: nat
  hour :: nat
  minute :: nat
  second :: nat
  microsecond :: nat


text \<open>
  A finite float is a mantissa and a binary exponent: the number \<open>m * 2 ^ e\<close>.
\<close>

type_synonym pyfloat = "int \<times> int"

text \<open>
  The values a cell of a table holds: a \<^verbatim>\<open>pandas.Timestamp\<close> (the cells of a column
  of dates), the missing timestamp \<^verbatim>\<open>NaT\<close>, a plain \<^verbatim>\<open>datetime.datetime\<close> (a date
  cell in a column that also holds other values), the missing number \<^verbatim>\<open>nan\<close>,
  \<^verbatim>\<open>None\<close>, a string, an integer, or a finite float.
\<close>

datatype cell =
    Timestamp timestamp | NaT | Datetime timestamp | NaN | PyNone
  | Str string | Num int | Float pyfloat

text \<open>\<^verbatim>\<open>pd.notnull(cell)\<close>.\<close>

fun notnull :: "cell \<Rightarrow> bool" where
  "notnull NaT = False"
| "notnull NaN = False"
| "notnull PyNone = False"
| "notnull _ = True"

subsection \<open>Tables\<close>

text \<open>
  A \<^verbatim>\<open>DataFrame\<close> with a default index: the number of rows and the columns in order,
  each a name with its values. It is well formed when the names are distinct (the
  spreadsheet reader renames duplicates) and every column has one value per row.
\<close>

record frame =
  nrows :: nat
  cols :: "(string \<times> cell list) list"

definition columns :: "frame \<Rightarrow> string list" where
  "columns df = map fst (cols df)"

definition wf :: "frame \<Rightarrow> bool" where
  "wf df = (distinct (columns df) \<and> list_all (\<lambda>cv. length (snd cv) = nrows df) (cols df))"

text \<open>\<^verbatim>\<open>df[c] = values\<close>: replaces the column in place, or appends a new last column.\<close>

definition set_col :: "frame \<Rightarrow> string \<Rightarrow> cell list \<Rightarrow> frame" where
  "set_col df c vs =
     (if c \<in> set (columns df)
      then df\<lparr>cols := map (\<lambda>cv. if fst cv = c then (c, vs) else cv) (cols df)\<rparr>
      else df\<lparr>cols := cols df @ [(c, vs)]\<rparr>)"

text \<open>\<^verbatim>\<open>df.drop(columns=[c], inplace=True)\<close>, for a column that is present.\<close>

definition drop_col :: "frame \<Rightarrow> string \<Rightarrow> frame" where
  "drop_col df c = df\<lparr>cols := filter (\<lambda>cv. fst cv \<noteq> c) (cols df)\<rparr>"

datatype py_error = KeyError string | ZeroDivisionError

text \<open>\<^verbatim>\<open>df[names]\<close>: the named columns in the order asked for; a missing name raises.\<close>

fun select_cols :: "(string \<times> cell list) list \<Rightarrow> string list \<Rightarrow> py_error + (string \<times> cell list) list" where
  "select_cols cs [] = Inr []"
| "select_cols cs (n # ns) =
     (case map_of cs n of
        None \<Rightarrow> Inl (KeyError n)
      | Some vs \<Rightarrow> (case select_cols cs ns of Inl e \<Rightarrow> Inl e | Inr r \<Rightarrow> Inr ((n, vs) # r)))"

definition select :: "frame \<Rightarrow> string list \<Rightarrow> py_error + frame" where
  "select df ns = (case select_cols (cols df) ns of Inl e \<Rightarrow> Inl e | Inr r \<Rightarrow> Inr (df\<lparr>cols := r\<rparr>))"

subsection \<open>Dates\<close>

text \<open>
  \<^verbatim>\<open>pd.to_datetime(values, errors="coerce")\<close> on a column. The library sets up one
  parser for the whole column (it infers a date format from the first value that is
  not missing and applies it to every value), so what a value parses to depends on the
  column it stands in: the parser of the library is the parameter \<open>parse\<close>, which
  takes the column and then the value. With the parser \<open>p\<close> of the column, a
  timestamp stays, a \<^verbatim>\<open>datetime\<close> becomes the timestamp of the same fields, a missing
  value becomes \<^verbatim>\<open>NaT\<close>, and any other value (a string, a number) is parsed and
  becomes \<^verbatim>\<open>NaT\<close> when the parser rejects it.
\<close>

fun to_datetime1 :: "(cell \<Rightarrow> timestamp option) \<Rightarrow> cell \<Rightarrow> cell" where
  "to_datetime1 p (Timestamp t) = Timestamp t"
| "to_datetime1 p (Datetime t) = Timestamp t"
| "to_datetime1 p NaT = NaT"
| "to_datetime1 p NaN = NaT"
| "to_datetime1 p PyNone = NaT"
| "to_datetime1 p v = (case p v of Some t \<Rightarrow> Timestamp t | None \<Rightarrow> NaT)"

definition to_datetime ::
  "(cell list \<Rightarrow> cell \<Rightarrow> timestamp option) \<Rightarrow> cell list \<Rightarrow> cell list" where
  "to_datetime parse vs = map (to_datetime1 (parse vs)) vs"


text \<open>
  \<^verbatim>\<open>a.combine_first(b)\<close> on two columns of one table: the value of \<open>a\<close> where it is
  not null, the value of \<open>b\<close> in the same row otherwise.
\<close>

definition combine_first :: "cell list \<Rightarrow> cell list \<Rightarrow> cell list" where
  "combine_first a b = map (\<lambda>(x, y). if notnull x then x else y) (zip a b)"

subsection \<open>The storage file and the session\<close>

text \<open>
  The state the program works on: the content of the file \<^verbatim>\<open>referees.xlsx\<close> (\<open>None\<close>
  when the path does not exist), the table kept in \<^verbatim>\<open>st.session_state.data\<close> (\<open>None\<close>
  before it is set), and the messages shown in the sidebar during the run.
\<close>

datatype message = ChangesSaved | EventAdded | IncorrectPassword

record state =
  storage :: "frame option"
  data :: "frame option"
  sidebar :: "message list"

text \<open>
  The spreadsheet writer stores the column names and one encoded value per cell
  (\<^verbatim>\<open>to_excel(FILE_PATH, index=False)\<close>); the reader gives the names back and decodes
  the cells (\<^verbatim>\<open>pd.read_excel\<close>). The reader chooses the type of a column from all of
  its cells, so what a cell is read as depends on its column. The two conversions are
  the parameters \<open>enc\<close> (of a value) and \<open>dec\<close> (of a column and a stored value).
\<close>

definition map_cells :: "(cell \<Rightarrow> cell) \<Rightarrow> frame \<Rightarrow> frame" where
  "map_cells f df = df\<lparr>cols := map (\<lambda>cv. (fst cv, map f (snd cv))) (cols df)\<rparr>"

definition to_excel :: "(cell \<Rightarrow> cell) \<Rightarrow> frame \<Rightarrow> frame" where
  "to_excel enc df = map_cells enc df"

definition read_excel :: "(cell list \<Rightarrow> cell \<Rightarrow> cell) \<Rightarrow> frame \<Rightarrow> frame" where
  "read_excel dec f = f\<lparr>cols := map (\<lambda>cv. (fst cv, map (dec (snd cv)) (snd cv))) (cols f)\<rparr>"

subsection \<open>Loading and saving\<close>

definition required_cols :: "string list" where
  "required_cols =
     [''Event Start'', ''Event Location'', ''Post Code'', ''Senior Referee'',
      ''Referee 2'', ''Referee 3'', ''Referee 4'', ''Referee 5'', ''Referee 6'']"

text \<open>
  Lines 22 to 26: the two branches that build \<^verbatim>\<open>Event Start\<close> from the legacy column.
  A name is in \<^verbatim>\<open>df.columns\<close> exactly when looking its column up succeeds, so each
  membership test is written as the lookup of the column the branch then reads.
\<close>

definition combine_dates ::
  "(cell list \<Rightarrow> cell \<Rightarrow> timestamp option) \<Rightarrow> frame \<Rightarrow> frame" where
  "combine_dates parse df =
     (case (map_of (cols df) ''Event Start'', map_of (cols df) ''Event Date'') of
        (None, Some ed) \<Rightarrow> set_col df ''Event Start'' (to_datetime parse ed)
      | (Some es, Some ed) \<Rightarrow> set_col df ''Event Start'' (to_datetime parse (combine_first es ed))
      | _ \<Rightarrow> df)"

text \<open>Lines 36 to 38: the loop that adds each missing required column, filled with \<^verbatim>\<open>""\<close>.\<close>

fun ensure_cols :: "string list \<Rightarrow> frame \<Rightarrow> frame" where
  "ensure_cols [] df = df"
| "ensure_cols (c # cs) df =
     ensure_cols cs
       (if c \<notin> set (columns df) then set_col df c (replicate (nrows df) (Str '''')) else df)"

definition empty_frame :: "string list \<Rightarrow> frame" where
  "empty_frame names = \<lparr>nrows = 0, cols = map (\<lambda>c. (c, [])) names\<rparr>"

definition load_data ::
  "(cell list \<Rightarrow> cell \<Rightarrow> timestamp option) \<Rightarrow> (cell list \<Rightarrow> cell \<Rightarrow> cell) \<Rightarrow> state \<Rightarrow>
     py_error + frame" where
  "load_data parse dec st =
     (case storage st of
        Some f \<Rightarrow>
          (let df = read_excel dec f;
               df = combine_dates parse df;
               df = (if ''Event Date'' \<in> set (columns df) then drop_col df ''Event Date'' else df);
               df = ensure_cols required_cols df
           in select df required_cols)
      | None \<Rightarrow> Inr (empty_frame required_cols))"

definition save_data :: "(cell \<Rightarrow> cell) \<Rightarrow> frame \<Rightarrow> state \<Rightarrow> state" where
  "save_data enc df st = st\<lparr>storage := Some (to_excel enc df)\<rparr>"



subsection \<open>The report\<close>

text \<open>Decimal digits of a number, as \<^verbatim>\<open>str\<close> and \<^verbatim>\<open>strftime\<close> print them.\<close>

definition digit :: "nat \<Rightarrow> char" where
  "digit n = ''0123456789'' ! (n mod 10)"

fun str_nat :: "nat \<Rightarrow> string" where
  "str_nat n = (if n < 10 then [digit n] else str_nat (n div 10) @ [digit n])"

declare str_nat.simps [simp del]

definition str_int :: "int \<Rightarrow> string" where
  "str_int i = (if i < 0 then CHR ''-'' # str_nat (nat (- i)) else str_nat (nat i))"

definition pad2 :: "nat \<Rightarrow> string" where
  "pad2 n = (if n < 10 then CHR ''0'' # str_nat n else str_nat n)"

definition pad4 :: "nat \<Rightarrow> string" where
  "pad4 n = replicate (4 - length (str_nat n)) CHR ''0'' @ str_nat n"

definition pad6 :: "nat \<Rightarrow> string" where
  "pad6 n = replicate (6 - length (str_nat n)) CHR ''0'' @ str_nat n"

text \<open>
  \<^verbatim>\<open>cell.strftime("%d/%m/%Y %H:%M")\<close>: day, month, hour and minute padded to two
  digits; \<^verbatim>\<open>%Y\<close> prints the year without padding, so a year below 1000 has fewer
  than four digits.
\<close>

definition strftime :: "timestamp \<Rightarrow> string" where
  "strftime t =
     pad2 (day t) @ ''/'' @ pad2 (month t) @ ''/'' @ str_nat (year t) @ '' '' @
     pad2 (hour t) @ '':'' @ pad2 (minute t)"

text \<open>
  \<^verbatim>\<open>str\<close> of a \<^verbatim>\<open>datetime\<close> or a timestamp: \<^verbatim>\<open>YYYY-MM-DD HH:MM:SS\<close>, with the
  microseconds when there are any.
\<close>

definition isoformat :: "timestamp \<Rightarrow> string" where
  "isoformat t =
     pad4 (year t) @ ''-'' @ pad2 (month t) @ ''-'' @ pad2 (day t) @ '' '' @
     pad2 (hour t) @ '':'' @ pad2 (minute t) @ '':'' @ pad2 (second t) @
     (if microsecond t = 0 then [] else ''.'' @ pad6 (microsecond t))"

text \<open>
  \<^verbatim>\<open>str(cell)\<close>. How Python prints a float is the parameter \<open>float_str\<close>.
\<close>

fun py_str :: "(pyfloat \<Rightarrow> string) \<Rightarrow> cell \<Rightarrow> string" where
  "py_str float_str (Str s) = s"
| "py_str float_str (Num i) = str_int i"
| "py_str float_str (Float x) = float_str x"
| "py_str float_str NaN = ''nan''"
| "py_str float_str NaT = ''NaT''"
| "py_str float_str PyNone = ''None''"
| "py_str float_str (Datetime t) = isoformat t"
| "py_str float_str (Timestamp t) = isoformat t"

text \<open>
  Lines 63 to 66: one cell of the report. Only a \<^verbatim>\<open>pandas.Timestamp\<close> passes the test
  \<^verbatim>\<open>isinstance(cell, pd.Timestamp)\<close>; a plain \<^verbatim>\<open>datetime\<close> and \<^verbatim>\<open>NaT\<close> do not.
\<close>

definition format_cell :: "(pyfloat \<Rightarrow> string) \<Rightarrow> cell \<Rightarrow> string" where
  "format_cell float_str c =
     (case c of
        Timestamp t \<Rightarrow> strftime t
      | _ \<Rightarrow> (if notnull c then py_str float_str c else []))"

text \<open>
  \<^verbatim>\<open>dataframe.itertuples(index=False)\<close>: the rows, each with its cells in column order.
  In a well-formed table every column has a value at every row index.
\<close>

definition itertuples :: "frame \<Rightarrow> cell list list" where
  "itertuples df = map (\<lambda>i. map (\<lambda>cv. snd cv ! i) (cols df)) [0..<nrows df]"

text \<open>
  The document handed to the renderer: the flowables in order. A table carries its
  rows of strings and the number of equally wide columns the page width is divided
  into; with no column that division raises.
\<close>

datatype element = Paragraph string | Spacer nat nat | Table "string list list" nat

definition generate_pdf :: "(pyfloat \<Rightarrow> string) \<Rightarrow> frame \<Rightarrow> py_error + element list" where
  "generate_pdf float_str dataframe =
     (let title = Paragraph ''WRPF UK Referee Planner'';
          table_data =
            columns dataframe # map (map (format_cell float_str)) (itertuples dataframe);
          num_columns = length (columns dataframe)
      in if num_columns = 0 then Inl ZeroDivisionError
         else Inr [title, Spacer 1 12, Table table_data num_columns])"

subsection \<open>The two guarded actions\<close>

text \<open>
  Lines 130 to 136, the handler of the button \<^verbatim>\<open>Save Changes\<close>. \<open>PASSWORD\<close> is the
  configured secret, \<open>clicked\<close> tells whether the button was pressed in this run,
  \<open>edit_password\<close> is the text typed, \<open>edited_df\<close> the table the editor returned.
\<close>

definition save_changes ::
  "string \<Rightarrow> (cell \<Rightarrow> cell) \<Rightarrow> bool \<Rightarrow> string \<Rightarrow> frame \<Rightarrow> state \<Rightarrow> state" where
  "save_changes PASSWORD enc clicked edit_password edited_df st =
     (if clicked then
        (if edit_password = PASSWORD then
           (save_data enc edited_df st)
             \<lparr>data := Some edited_df, sidebar := sidebar st @ [ChangesSaved]\<rparr>
         else st\<lparr>sidebar := sidebar st @ [IncorrectPassword]\<rparr>)
      else st)"

record pydate =
  dyear :: nat
  dmonth :: nat
  dday :: nat

record pytime =
  thour :: nat
  tminute :: nat
  tsecond :: nat
  tmicrosecond :: nat

text \<open>\<^verbatim>\<open>datetime.combine(event_date, event_time)\<close>.\<close>

definition combine :: "pydate \<Rightarrow> pytime \<Rightarrow> timestamp" where
  "combine d t =
     \<lparr>year = dyear d, month = dmonth d, day = dday d,
      hour = thour t, minute = tminute t, second = tsecond t, microsecond = tmicrosecond t\<rparr>"

text \<open>The values of the widgets of the form \<^verbatim>\<open>add_event_form\<close>.\<close>

record form =
  event_date :: pydate
  event_time :: pytime
  event_location :: string
  post_code :: string
  senior_ref :: string
  referee_2 :: string
  referee_3 :: string
  referee_4 :: string
  referee_5 :: string
  referee_6 :: string

text \<open>\<^verbatim>\<open>pd.DataFrame([row])\<close> for one dictionary: a table of one row.\<close>

definition DataFrame1 :: "(string \<times> cell) list \<Rightarrow> frame" where
  "DataFrame1 row = \<lparr>nrows = 1, cols = map (\<lambda>kv. (fst kv, [snd kv])) row\<rparr>"

text \<open>
  \<^verbatim>\<open>pd.concat([a, b], ignore_index=True)\<close>: the rows of \<open>a\<close>, then the rows of \<open>b\<close>;
  the columns of \<open>a\<close>, then the columns only \<open>b\<close> has; a value a table lacks is
  \<^verbatim>\<open>nan\<close>.
\<close>

definition concat2 :: "frame \<Rightarrow> frame \<Rightarrow> frame" where
  "concat2 a b =
     \<lparr>nrows = nrows a + nrows b,
      cols =
        map (\<lambda>cv. (fst cv, snd cv @
               (case map_of (cols b) (fst cv) of
                  Some ws \<Rightarrow> ws
                | None \<Rightarrow> replicate (nrows b) NaN))) (cols a) @
        map (\<lambda>cw. (fst cw, replicate (nrows a) NaN @ snd cw))
          (filter (\<lambda>cw. fst cw \<notin> set (columns a)) (cols b))\<rparr>"

definition new_row :: "form \<Rightarrow> (string \<times> cell) list" where
  "new_row f =
     [(''Event Start'', Timestamp (combine (event_date f) (event_time f))),
      (''Event Location'', Str (event_location f)),
      (''Post Code'', Str (post_code f)),
      (''Senior Referee'', Str (senior_ref f)),
      (''Referee 2'', Str (referee_2 f)),
      (''Referee 3'', Str (referee_3 f)),
      (''Referee 4'', Str (referee_4 f)),
      (''Referee 5'', Str (referee_5 f)),
      (''Referee 6'', Str (referee_6 f))]"

text \<open>
  Lines 141 to 174, the form \<^verbatim>\<open>add_event_form\<close>. \<open>add_password\<close> is the text typed,
  \<open>submit_event\<close> tells whether the form was submitted in this run, \<open>f\<close> holds the
  values of its widgets.
\<close>

definition add_event_form ::
  "string \<Rightarrow> (cell \<Rightarrow> cell) \<Rightarrow> string \<Rightarrow> bool \<Rightarrow> form \<Rightarrow> frame \<Rightarrow> state \<Rightarrow> state" where
  "add_event_form PASSWORD enc add_password submit_event f edited_df st =
     (if add_password = PASSWORD then
        (if submit_event then
           (let updated_df = concat2 edited_df (DataFrame1 (new_row f))
            in (save_data enc updated_df st)
                 \<lparr>data := Some updated_df, sidebar := sidebar st @ [EventAdded]\<rparr>)
         else st)
      else if add_password \<noteq> [] then st\<lparr>sidebar := sidebar st @ [IncorrectPassword]\<rparr>
      else st)"

subsection \<open>Sample inputs\<close>

text \<open>
  A small parser for concrete evaluations. It knows one date written in two formats,
  and works as the library does: the format of a column is the format of its first
  value that is not missing; a string parses when it is written in the format of the
  column, and on its own when the column has no format (its first value is not a
  string, or not a date the parser knows).
\<close>

datatype date_format = YearMonthDay | MonthDayYear

definition sample_date :: timestamp where
  "sample_date = \<lparr>year = 2024, month = 3, day = 1, hour = 0, minute = 0, second = 0, microsecond = 0\<rparr>"

definition sample_dates :: "(string \<times> date_format \<times> timestamp) list" where
  "sample_dates =
     [(''2024-03-01'', YearMonthDay, sample_date), (''03/01/2024'', MonthDayYear, sample_date)]"

fun first_notnull :: "cell list \<Rightarrow> cell option" where
  "first_notnull [] = None"
| "first_notnull (v # vs) = (if notnull v then Some v else first_notnull vs)"

definition sample_format :: "cell list \<Rightarrow> date_format option" where
  "sample_format col =
     (case first_notnull col of
        Some (Str s) \<Rightarrow> map_option fst (map_of sample_dates s)
      | _ \<Rightarrow> None)"

definition sample_parse :: "cell list \<Rightarrow> cell \<Rightarrow> timestamp option" where
  "sample_parse col v =
     (case v of
        Str s \<Rightarrow>
          (case map_of sample_dates s of
             None \<Rightarrow> None
           | Some ft \<Rightarrow>
               (case sample_format col of
                  None \<Rightarrow> Some (snd ft)
                | Some f \<Rightarrow> if f = fst ft then Some (snd ft) else None))
      | _ \<Rightarrow> None)"

text \<open>
  A sample spreadsheet codec, for dates, strings and empty cells. The writer stores a
  timestamp or a \<^verbatim>\<open>datetime\<close> as a date cell and leaves a missing value or an empty
  string as an empty cell (here \<^verbatim>\<open>Datetime\<close> and \<^verbatim>\<open>NaN\<close> stand for the two kinds of
  stored cell); every other value is kept. The reader returns a column whose cells
  are dates or empty, with a date among them, as timestamps and \<^verbatim>\<open>NaT\<close>; in any
  other column it returns each cell as it is stored, an empty cell as \<^verbatim>\<open>nan\<close>.
\<close>

definition sample_enc :: "cell \<Rightarrow> cell" where
  "sample_enc c =
     (case c of
        Timestamp t \<Rightarrow> Datetime t
      | _ \<Rightarrow> (if notnull c \<and> c \<noteq> Str [] then c else NaN))"

fun is_date :: "cell \<Rightarrow> bool" where
  "is_date (Timestamp t) = True"
| "is_date (Datetime t) = True"
| "is_date _ = False"

definition date_column :: "cell list \<Rightarrow> bool" where
  "date_column col = (list_ex is_date col \<and> list_all (\<lambda>c. is_date c \<or> \<not> notnull c) col)"

definition sample_dec :: "cell list \<Rightarrow> cell \<Rightarrow> cell" where
  "sample_dec col c =
     (if date_column col then
        (case c of Timestamp t \<Rightarrow> Timestamp t | Datetime t \<Rightarrow> Timestamp t | _ \<Rightarrow> NaT)
      else c)"

text \<open>
  Tables for concrete evaluations, as the reader returns them: one with the legacy
  column only (the example of the specification, with a second row whose date does not
  parse), one with both date columns, one with the unified column only. A date cell
  next to a string in its column is a plain \<^verbatim>\<open>datetime\<close>, an empty cell next to it
  \<^verbatim>\<open>nan\<close>. The fourth has a legacy column of two dates in two formats.
\<close>

definition sample_time :: timestamp where
  "sample_time = \<lparr>year = 2024, month = 5, day = 4, hour = 9, minute = 30, second = 0, microsecond = 0\<rparr>"

definition legacy_file :: frame where
  "legacy_file =
     \<lparr>nrows = 2,
      cols = [(''Event Date'', [Str ''2024-03-01'', Str ''tbc'']),
              (''Event Location'', [Str ''Leeds'', Str ''York'']),
              (''Post Code'', [Str ''LS1 1AA'', NaN]),
              (''Senior Referee'', [Str ''J. Smith'', NaN])]\<rparr>"


definition unified_file :: frame where
  "unified_file =
     \<lparr>nrows = 2,
      cols = [(''Event Start'', [Datetime sample_time, Str ''tbc'']),
              (''Event Location'', [Str ''Leeds'', Str ''York''])]\<rparr>"







text \<open>
  A table with every kind of cell, a table in the canonical schema, and the values of
  a filled form.
\<close>

definition report_sample :: frame where
  "report_sample =
     \<lparr>nrows = 2,
      cols = [(''Event Start'', [Timestamp sample_time, NaT]),
              (''Event Location'', [Str ''Leeds'', PyNone]),
              (''Post Code'', [Float (- 120, 0), NaN]),
              (''Senior Referee'', [Num 7, Datetime sample_time])]\<rparr>"


definition sample_float_str :: "pyfloat \<Rightarrow> string" where
  "sample_float_str x = (if snd x = 0 then str_int (fst x) @ ''.0'' else [])"


definition planner_sample :: frame where
  "planner_sample =
     \<lparr>nrows = 1,
      cols = [(''Event Start'', [Timestamp sample_time]),
              (''Event Location'', [Str ''Leeds'']),
              (''Post Code'', [Str ''LS1 1AA'']),
              (''Senior Referee'', [Str ''J. Smith'']),
              (''Referee 2'', [Str []]),
              (''Referee 3'', [Str []]),
              (''Referee 4'', [NaN]),
              (''Referee 5'', [NaN]),
              (''Referee 6'', [PyNone])]\<rparr>"

definition sample_form :: form where
  "sample_form =
     \<lparr>event_date = \<lparr>dyear = 2025, dmonth = 1, dday = 18\<rparr>,
      event_time = \<lparr>thour = 9, tminute = 0, tsecond = 0, tmicrosecond = 0\<rparr>,
      event_location = ''York'', post_code = ''YO1 7HH'', senior_ref = ''A. Jones'',
      referee_2 = ''B. Lee'', referee_3 = [], referee_4 = [], referee_5 = [],
      referee_6 = []\<rparr>"

definition state0 :: state where
  "state0 = \<lparr>storage = None, data = None, sidebar = []\<rparr>"

definition legacy_state :: state where
  "legacy_state = \<lparr>storage = Some legacy_file, data = None, sidebar = []\<rparr>"


definition unified_state :: state where
  "unified_state = \<lparr>storage = Some unified_file, data = None, sidebar = []\<rparr>"


section \<open>Properties\<close>

subsection \<open>Looking up columns\<close>

lemma in_columns_iff: "c \<in> set (columns df) \<longleftrightarrow> map_of (cols df) c \<noteq> None"
  by (simp add: columns_def map_of_eq_None_iff)

lemma map_of_replace:
  "map_of (map (\<lambda>cv. if fst cv = c then (c, vs) else cv) xs) c' =
     (if c' = c then map_option (\<lambda>_. vs) (map_of xs c) else map_of xs c')"
  by (induction xs) auto

lemma lookup_set_col:
  "map_of (cols (set_col df c vs)) c' = (if c' = c then Some vs else map_of (cols df) c')"
proof (cases "c \<in> set (columns df)")
  case True
  then have "map_of (cols df) c \<noteq> None"
    by (simp add: columns_def map_of_eq_None_iff)
  then obtain ws where "map_of (cols df) c = Some ws"
    by blast
  with True show ?thesis by (simp add: set_col_def map_of_replace)
next
  case False
  then have "map_of (cols df) c = None"
    by (simp add: columns_def map_of_eq_None_iff)
  with False show ?thesis
    by (auto simp: set_col_def map_add_def split: option.splits)
qed

lemma nrows_set_col: "nrows (set_col df c vs) = nrows df"
  by (simp add: set_col_def)

lemma lookup_drop_col:
  "map_of (cols (drop_col df c)) c' = (if c' = c then None else map_of (cols df) c')"
proof -
  have "map_of (filter (\<lambda>cv. fst cv \<noteq> c) xs) c' = (if c' = c then None else map_of xs c')" for xs
    by (induction xs) auto
  from this [of "cols df"] show ?thesis by (simp add: drop_col_def)
qed

lemma nrows_drop_col: "nrows (drop_col df c) = nrows df"
  by (simp add: drop_col_def)

lemma nrows_ensure_cols: "nrows (ensure_cols ns df) = nrows df"
  by (induction ns arbitrary: df) (auto simp: nrows_set_col)

lemma lookup_ensure_cols:
  "map_of (cols (ensure_cols ns df)) c =
     (case map_of (cols df) c of
        Some vs \<Rightarrow> Some vs
      | None \<Rightarrow> if c \<in> set ns then Some (replicate (nrows df) (Str [])) else None)"
  by (induction ns arbitrary: df)
     (auto simp: lookup_set_col nrows_set_col in_columns_iff split: option.splits)

lemma select_cols_total:
  "\<forall>n \<in> set ns. map_of cs n \<noteq> None \<Longrightarrow>
     select_cols cs ns = Inr (map (\<lambda>n. (n, the (map_of cs n))) ns)"
  by (induction ns) auto

lemma nrows_combine_dates: "nrows (combine_dates parse df) = nrows df"
  by (simp add: combine_dates_def nrows_set_col split: option.splits)

lemma load_data_Some:
  assumes "storage st = Some f"
  shows "load_data parse dec st =
    Inr (f\<lparr>cols := map (\<lambda>c. (c,
           case map_of (cols (combine_dates parse (read_excel dec f))) c of
             Some vs \<Rightarrow> vs
           | None \<Rightarrow> replicate (nrows f) (Str []))) required_cols\<rparr>)"
proof -
  define d1 where "d1 = combine_dates parse (read_excel dec f)"
  define d2 where "d2 = (if ''Event Date'' \<in> set (columns d1) then drop_col d1 ''Event Date'' else d1)"
  define d3 where "d3 = ensure_cols required_cols d2"
  have n1: "nrows d1 = nrows f"
    by (simp add: d1_def nrows_combine_dates read_excel_def)
  have n2: "nrows d2 = nrows f"
    by (simp add: d2_def n1 nrows_drop_col)
  have l2: "map_of (cols d2) c = map_of (cols d1) c" if "c \<in> set required_cols" for c
    using that by (auto simp: d2_def lookup_drop_col required_cols_def)
  have l3: "map_of (cols d3) c =
      Some (case map_of (cols d1) c of Some vs \<Rightarrow> vs | None \<Rightarrow> replicate (nrows f) (Str []))"
    if "c \<in> set required_cols" for c
    using that by (simp add: d3_def lookup_ensure_cols l2 n2 split: option.splits)
  have "select_cols (cols d3) required_cols =
      Inr (map (\<lambda>n. (n, the (map_of (cols d3) n))) required_cols)"
    by (rule select_cols_total) (simp add: l3)
  also have "map (\<lambda>n. (n, the (map_of (cols d3) n))) required_cols =
      map (\<lambda>c. (c, case map_of (cols d1) c of Some vs \<Rightarrow> vs | None \<Rightarrow> replicate (nrows f) (Str [])))
        required_cols"
    by (rule map_cong) (simp_all add: l3)
  finally have sel: "select_cols (cols d3) required_cols =
      Inr (map (\<lambda>c. (c, case map_of (cols d1) c of Some vs \<Rightarrow> vs | None \<Rightarrow> replicate (nrows f) (Str [])))
        required_cols)" .
  have more: "d3\<lparr>cols := xs\<rparr> = f\<lparr>cols := xs\<rparr>" for xs
    by (rule frame.equality) (simp_all add: d3_def nrows_ensure_cols n2)
  have "load_data parse dec st = select d3 required_cols"
    using assms by (simp add: load_data_def Let_def d1_def d2_def d3_def)
  then show ?thesis
    by (simp add: select_def sel more d1_def)
qed

subsection \<open>The table read from the file and the migration\<close>



lemma nrows_read_excel: "nrows (read_excel dec f) = nrows f"
  by (simp add: read_excel_def)

lemma wf_lookup_length:
  "wf df \<Longrightarrow> map_of (cols df) c = Some vs \<Longrightarrow> length vs = nrows df"
  by (force simp: wf_def list_all_iff dest: map_of_SomeD)

lemma wf_read_excel: "wf f \<Longrightarrow> wf (read_excel dec f)"
  by (simp add: wf_def read_excel_def columns_def comp_def list_all_iff)

lemma length_combine_first: "length (combine_first a b) = min (length a) (length b)"
  by (simp add: combine_first_def)


lemma lookup_combine_dates:
  "map_of (cols (combine_dates parse df)) c =
     (if c = ''Event Start'' then
        (case map_of (cols df) ''Event Date'' of
           None \<Rightarrow> map_of (cols df) ''Event Start''
         | Some ed \<Rightarrow>
             (case map_of (cols df) ''Event Start'' of
                None \<Rightarrow> Some (to_datetime parse ed)
              | Some es \<Rightarrow> Some (to_datetime parse (combine_first es ed))))
      else map_of (cols df) c)"
  by (simp add: combine_dates_def lookup_set_col split: option.splits)

lemma length_lookup_combine_dates:
  assumes "wf df" and "map_of (cols (combine_dates parse df)) c = Some vs"
  shows "length vs = nrows df"
  using assms
  by (auto simp: lookup_combine_dates to_datetime_def length_combine_first wf_lookup_length
      split: if_splits option.splits)

lemma distinct_required_cols: "distinct required_cols"
  by (simp add: required_cols_def)

lemma load_data_lookup:
  assumes "storage st = Some f"
  obtains out where
    "load_data parse dec st = Inr out"
    "nrows out = nrows f"
    "columns out = required_cols"
    "\<And>c. c \<in> set required_cols \<Longrightarrow>
       map_of (cols out) c =
         Some (case map_of (cols (combine_dates parse (read_excel dec f))) c of
                 Some vs \<Rightarrow> vs
               | None \<Rightarrow> replicate (nrows f) (Str []))"
    "wf f \<Longrightarrow> wf out"
proof -
  let ?g = "\<lambda>c. case map_of (cols (combine_dates parse (read_excel dec f))) c of
                 Some vs \<Rightarrow> vs
               | None \<Rightarrow> replicate (nrows f) (Str [])"
  let ?out = "f\<lparr>cols := map (\<lambda>c. (c, ?g c)) required_cols\<rparr>"
  have 1: "load_data parse dec st = Inr ?out"
    by (rule load_data_Some [OF assms])
  have 2: "nrows ?out = nrows f" by simp
  have 3: "columns ?out = required_cols" by (simp add: columns_def comp_def)
  have 4: "map_of (cols ?out) c = Some (?g c)" if "c \<in> set required_cols" for c
    using that by (simp add: map_of_map_restrict)
  have 5: "wf ?out" if "wf f"
  proof -
    have "length (?g c) = nrows f" for c
      using length_lookup_combine_dates [OF wf_read_excel [OF that], of parse dec c]
      by (simp add: nrows_read_excel split: option.splits)
    then show ?thesis
      by (simp add: wf_def columns_def comp_def distinct_required_cols list_all_iff)
  qed
  from 1 2 3 4 5 show thesis by (rule that)
qed


lemma not_in_columns_iff: "c \<notin> set (columns df) \<longleftrightarrow> map_of (cols df) c = None"
  by (simp add: in_columns_iff)


subsection \<open>Loading a file in the canonical schema\<close>







subsection \<open>Rows and digits\<close>

lemma length_itertuples: "length (itertuples df) = nrows df"
  by (simp add: itertuples_def)











subsection \<open>Appending one row\<close>

lemma itertuples_snoc:
  assumes "wf a"
  shows "itertuples \<lparr>nrows = nrows a + 1,
                     cols = map (\<lambda>cv. (fst cv, snd cv @ [h (fst cv)])) (cols a)\<rparr> =
         itertuples a @ [map h (columns a)]"
proof -
  define cs where "cs = map (\<lambda>cv. (fst cv, snd cv @ [h (fst cv)])) (cols a)"
  have len: "length (snd cv) = nrows a" if "cv \<in> set (cols a)" for cv
    using assms that by (simp add: wf_def list_all_iff)
  have old: "map (\<lambda>cv. snd cv ! i) cs = map (\<lambda>cv. snd cv ! i) (cols a)" if "i < nrows a" for i
    using that by (simp add: cs_def nth_append len)
  have new: "map (\<lambda>cv. snd cv ! nrows a) cs = map h (columns a)"
    by (simp add: cs_def nth_append len columns_def)
  have "map (\<lambda>i. map (\<lambda>cv. snd cv ! i) cs) [0..<nrows a] =
        map (\<lambda>i. map (\<lambda>cv. snd cv ! i) (cols a)) [0..<nrows a]"
    by (rule map_cong) (simp_all add: old)
  then have "itertuples \<lparr>nrows = nrows a + 1, cols = cs\<rparr> = itertuples a @ [map h (columns a)]"
    by (simp add: itertuples_def new)
  then show ?thesis by (simp add: cs_def)
qed

lemma nrows_DataFrame1: "nrows (DataFrame1 row) = 1"
  by (simp add: DataFrame1_def)

lemma lookup_DataFrame1:
  "map_of (cols (DataFrame1 row)) c = map_option (\<lambda>v. [v]) (map_of row c)"
proof -
  have "map_of (map (\<lambda>kv. (fst kv, [snd kv])) row) c = map_option (\<lambda>v. [v]) (map_of row c)"
    by (induction row) auto
  then show ?thesis by (simp add: DataFrame1_def)
qed

lemma concat2_new_row:
  assumes "columns a = required_cols"
  shows "concat2 a (DataFrame1 (new_row f)) =
     \<lparr>nrows = nrows a + 1,
      cols = map (\<lambda>cv. (fst cv, snd cv @
               [case map_of (new_row f) (fst cv) of Some v \<Rightarrow> v | None \<Rightarrow> NaN])) (cols a)\<rparr>"
proof -
  have 1: "filter (\<lambda>cw. fst cw \<notin> set (columns a)) (cols (DataFrame1 (new_row f))) = []"
    by (simp add: assms DataFrame1_def new_row_def required_cols_def)
  have 2: "(case map_of (cols (DataFrame1 (new_row f))) c of
              Some ws \<Rightarrow> ws | None \<Rightarrow> replicate (nrows (DataFrame1 (new_row f))) NaN) =
           [case map_of (new_row f) c of Some v \<Rightarrow> v | None \<Rightarrow> NaN]" for c
    by (simp add: lookup_DataFrame1 nrows_DataFrame1 split: option.splits)
  show ?thesis
    by (simp add: concat2_def 1 2 nrows_DataFrame1)
qed

subsection \<open>Missing storage\<close>

text \<open>
  C6. When the storage file does not exist, \<^verbatim>\<open>load_data\<close> returns normally (no error)
  a table with exactly the nine canonical columns, in order, and no rows.
\<close>

theorem load_data_missing_file:
  "storage st = None \<Longrightarrow>
     (\<exists>df. load_data parse dec st = Inr df \<and> columns df = required_cols \<and> nrows df = 0
        \<and> cols df = map (\<lambda>c. (c, [])) required_cols \<and> wf df)"
  by (simp add: load_data_def empty_frame_def columns_def wf_def required_cols_def comp_def)

theorem load_data_missing_file_witness:
  "storage state0 = None \<and>
   (\<exists>df. load_data sample_parse sample_dec state0 = Inr df
      \<and> columns df = required_cols \<and> nrows df = 0
      \<and> cols df = map (\<lambda>c. (c, [])) required_cols \<and> wf df)"
  using load_data_missing_file [of state0 sample_parse sample_dec]
  by (simp add: state0_def)

subsection \<open>Legacy date migration\<close>




subsection \<open>Tables already in the unified schema\<close>

text \<open>
  C7. For every table read from the file that has a column \<^verbatim>\<open>Event Start\<close> and no
  column \<^verbatim>\<open>Event Date\<close>, \<^verbatim>\<open>load_data\<close> returns the column \<^verbatim>\<open>Event Start\<close> of the
  source unchanged, row for row.
\<close>

theorem load_data_unified_unchanged:
  assumes "storage st = Some f" and "wf f" and "df = read_excel dec f"
    and "map_of (cols df) ''Event Start'' = Some es"
    and "''Event Date'' \<notin> set (columns df)"
  shows "\<exists>out. load_data parse dec st = Inr out \<and> map_of (cols out) ''Event Start'' = Some es"
proof -
  obtain out where out:
    "load_data parse dec st = Inr out"
    "\<And>c. c \<in> set required_cols \<Longrightarrow>
       map_of (cols out) c =
         Some (case map_of (cols (combine_dates parse df)) c of
                 Some vs \<Rightarrow> vs
               | None \<Rightarrow> replicate (nrows f) (Str []))"
    using load_data_lookup [OF assms(1), of parse dec] assms(3) by metis
  have "map_of (cols df) ''Event Date'' = None"
    using assms(5) by (simp add: not_in_columns_iff)
  then have "map_of (cols out) ''Event Start'' = Some es"
    using out(2) [of "''Event Start''"] assms(4)
    by (simp add: lookup_combine_dates required_cols_def)
  with out(1) show ?thesis by blast
qed

theorem load_data_unified_unchanged_witness:
  "storage unified_state = Some unified_file \<and> wf unified_file \<and>
   map_of (cols (read_excel sample_dec unified_file)) ''Event Start'' =
     Some [Datetime sample_time, Str ''tbc''] \<and>
   ''Event Date'' \<notin> set (columns (read_excel sample_dec unified_file)) \<and>
   (\<exists>out. load_data sample_parse sample_dec unified_state = Inr out \<and>
      map_of (cols out) ''Event Start'' = Some [Datetime sample_time, Str ''tbc''])"
proof -
  have h1: "storage unified_state = Some unified_file" by (simp add: unified_state_def)
  have h2: "wf unified_file" by code_simp
  have h3: "map_of (cols (read_excel sample_dec unified_file)) ''Event Start'' =
     Some [Datetime sample_time, Str ''tbc'']" by code_simp
  have h4: "''Event Date'' \<notin> set (columns (read_excel sample_dec unified_file))" by code_simp
  from load_data_unified_unchanged [OF h1 h2 refl h3 h4, of sample_parse] h1 h2 h3 h4
  show ?thesis by blast
qed

subsection \<open>The canonical schema\<close>




subsection \<open>Values that do not parse\<close>




subsection \<open>Round trip\<close>




subsection \<open>The password check\<close>

text \<open>
  C1. For every table, every state and every typed password: pressing
  \<^verbatim>\<open>Save Changes\<close> with the configured password overwrites the storage file with
  the table of the editor and makes it the session table; submitting the form with the
  configured password overwrites the file with the table extended by the new row. With
  any other password neither action writes the file or changes the session table,
  whatever the button or the form reports; the sidebar shows the rejection.
\<close>

theorem guarded_writes:
  "(edit_password = PASSWORD \<longrightarrow>
      storage (save_changes PASSWORD enc True edit_password df st) = Some (to_excel enc df) \<and>
      data (save_changes PASSWORD enc True edit_password df st) = Some df) \<and>
   (edit_password \<noteq> PASSWORD \<longrightarrow>
      storage (save_changes PASSWORD enc clicked edit_password df st) = storage st \<and>
      data (save_changes PASSWORD enc clicked edit_password df st) = data st \<and>
      sidebar (save_changes PASSWORD enc True edit_password df st) =
        sidebar st @ [IncorrectPassword]) \<and>
   (add_password = PASSWORD \<longrightarrow>
      storage (add_event_form PASSWORD enc add_password True f df st) =
        Some (to_excel enc (concat2 df (DataFrame1 (new_row f)))) \<and>
      data (add_event_form PASSWORD enc add_password True f df st) =
        Some (concat2 df (DataFrame1 (new_row f)))) \<and>
   (add_password \<noteq> PASSWORD \<longrightarrow>
      storage (add_event_form PASSWORD enc add_password submit_event f df st) = storage st \<and>
      data (add_event_form PASSWORD enc add_password submit_event f df st) = data st \<and>
      (add_password \<noteq> [] \<longrightarrow>
         sidebar (add_event_form PASSWORD enc add_password submit_event f df st) =
           sidebar st @ [IncorrectPassword]))"
  by (simp add: save_changes_def add_event_form_def save_data_def Let_def)

theorem guarded_writes_witness:
  "storage (save_changes ''s3cret'' sample_enc True ''s3cret'' planner_sample legacy_state) =
     Some (to_excel sample_enc planner_sample) \<and>
   data (save_changes ''s3cret'' sample_enc True ''s3cret'' planner_sample legacy_state) =
     Some planner_sample \<and>
   storage (save_changes ''s3cret'' sample_enc True ''guess'' planner_sample legacy_state) =
     Some legacy_file \<and>
   data (save_changes ''s3cret'' sample_enc True ''guess'' planner_sample legacy_state) = None \<and>
   sidebar (save_changes ''s3cret'' sample_enc True ''guess'' planner_sample legacy_state) =
     [IncorrectPassword] \<and>
   storage (add_event_form ''s3cret'' sample_enc ''s3cret'' True sample_form planner_sample
              legacy_state) =
     Some (to_excel sample_enc (concat2 planner_sample (DataFrame1 (new_row sample_form)))) \<and>
   storage (add_event_form ''s3cret'' sample_enc ''guess'' True sample_form planner_sample
              legacy_state) =
     Some legacy_file \<and>
   data (add_event_form ''s3cret'' sample_enc ''guess'' True sample_form planner_sample
           legacy_state) = None \<and>
   sidebar (add_event_form ''s3cret'' sample_enc ''guess'' True sample_form planner_sample
           legacy_state) = [IncorrectPassword]"
  using
    guarded_writes [where PASSWORD = "''s3cret''" and edit_password = "''s3cret''"
      and add_password = "''s3cret''" and enc = sample_enc and df = planner_sample
      and st = legacy_state and f = sample_form and clicked = True and submit_event = True]
    guarded_writes [where PASSWORD = "''s3cret''" and edit_password = "''guess''"
      and add_password = "''guess''" and enc = sample_enc and df = planner_sample
      and st = legacy_state and f = sample_form and clicked = True and submit_event = True]
  by (simp add: legacy_state_def)

subsection \<open>Rows of the report\<close>

text \<open>
  C8. For every table of \<open>N\<close> records with at least one column (the event table
  has nine), \<^verbatim>\<open>generate_pdf\<close> returns the title, a spacer and a table of \<open>N + 1\<close>
  rows: the column names, then one row per record in order. For \<open>N = 0\<close> the table
  holds the header row only.
\<close>

theorem generate_pdf_rows:
  assumes "columns df \<noteq> []"
  shows "\<exists>table_data.
     generate_pdf float_str df =
       Inr [Paragraph ''WRPF UK Referee Planner'', Spacer 1 12,
            Table table_data (length (columns df))] \<and>
     length table_data = nrows df + 1 \<and>
     table_data ! 0 = columns df \<and>
     (\<forall>i<nrows df. table_data ! (i + 1) = map (format_cell float_str) (itertuples df ! i)) \<and>
     (nrows df = 0 \<longrightarrow> table_data = [columns df])"
  using assms by (simp add: generate_pdf_def Let_def length_itertuples itertuples_def)

theorem generate_pdf_rows_witness:
  "columns (empty_frame required_cols) \<noteq> [] \<and>
   generate_pdf sample_float_str (empty_frame required_cols) =
     Inr [Paragraph ''WRPF UK Referee Planner'', Spacer 1 12, Table [required_cols] 9] \<and>
   columns report_sample \<noteq> [] \<and>
   (\<exists>table_data.
      generate_pdf sample_float_str report_sample =
        Inr [Paragraph ''WRPF UK Referee Planner'', Spacer 1 12, Table table_data 4] \<and>
      length table_data = 3 \<and>
      table_data ! 0 = [''Event Start'', ''Event Location'', ''Post Code'', ''Senior Referee''])"
proof -
  have e: "columns (empty_frame required_cols) \<noteq> []" by code_simp
  have r: "columns report_sample \<noteq> []" by code_simp
  have ce: "columns (empty_frame required_cols) = required_cols"
    by (simp add: empty_frame_def columns_def comp_def)
  have ne: "nrows (empty_frame required_cols) = 0" by (simp add: empty_frame_def)
  have le: "length required_cols = 9" by (simp add: required_cols_def)
  have cr: "columns report_sample = [''Event Start'', ''Event Location'', ''Post Code'', ''Senior Referee'']"
    by (simp add: report_sample_def columns_def)
  have nr: "nrows report_sample = 2" by (simp add: report_sample_def)
  have a: "generate_pdf sample_float_str (empty_frame required_cols) =
     Inr [Paragraph ''WRPF UK Referee Planner'', Spacer 1 12, Table [required_cols] 9]"
    using generate_pdf_rows [OF e, of sample_float_str] by (auto simp: ce ne le)
  have b: "\<exists>table_data.
      generate_pdf sample_float_str report_sample =
        Inr [Paragraph ''WRPF UK Referee Planner'', Spacer 1 12, Table table_data 4] \<and>
      length table_data = 3 \<and>
      table_data ! 0 = [''Event Start'', ''Event Location'', ''Post Code'', ''Senior Referee'']"
    using generate_pdf_rows [OF r, of sample_float_str] by (auto simp: cr nr)
  from e r a b show ?thesis by blast
qed

subsection \<open>Cells of the report\<close>




subsection \<open>Adding an event\<close>

text \<open>
  C10. For every well-formed table in the canonical schema, submitting the form with
  the configured password stores (in the session and in the file) the table with one
  more row: the rows before are unchanged and in the same order, the new row is last,
  its \<^verbatim>\<open>Event Start\<close> is the timestamp combining the selected date and time (never
  null) and its other cells are the texts typed.
\<close>

theorem add_event_form_appends:
  assumes "wf edited_df" and "columns edited_df = required_cols"
  shows "\<exists>updated_df.
     data (add_event_form PASSWORD enc PASSWORD True f edited_df st) = Some updated_df \<and>
     storage (add_event_form PASSWORD enc PASSWORD True f edited_df st) =
       Some (to_excel enc updated_df) \<and>
     columns updated_df = columns edited_df \<and> nrows updated_df = nrows edited_df + 1 \<and>
     wf updated_df \<and>
     itertuples updated_df =
       itertuples edited_df @
         [[Timestamp \<lparr>year = dyear (event_date f), month = dmonth (event_date f),
                        day = dday (event_date f), hour = thour (event_time f),
                        minute = tminute (event_time f), second = tsecond (event_time f),
                        microsecond = tmicrosecond (event_time f)\<rparr>,
           Str (event_location f), Str (post_code f), Str (senior_ref f),
           Str (referee_2 f), Str (referee_3 f), Str (referee_4 f), Str (referee_5 f),
           Str (referee_6 f)]] \<and>
     notnull (last (itertuples updated_df) ! 0)"
proof -
  let ?h = "\<lambda>c. case map_of (new_row f) c of Some v \<Rightarrow> v | None \<Rightarrow> NaN"
  define updated_df where "updated_df = concat2 edited_df (DataFrame1 (new_row f))"
  have shape: "updated_df =
     \<lparr>nrows = nrows edited_df + 1,
      cols = map (\<lambda>cv. (fst cv, snd cv @ [?h (fst cv)])) (cols edited_df)\<rparr>"
    unfolding updated_df_def by (rule concat2_new_row [OF assms(2)])
  have d: "data (add_event_form PASSWORD enc PASSWORD True f edited_df st) = Some updated_df"
    and s: "storage (add_event_form PASSWORD enc PASSWORD True f edited_df st) =
       Some (to_excel enc updated_df)"
    by (simp_all add: add_event_form_def Let_def save_data_def updated_df_def)
  have c: "columns updated_df = columns edited_df"
    by (simp add: shape columns_def comp_def)
  have n: "nrows updated_df = nrows edited_df + 1"
    by (simp add: shape)
  have w: "wf updated_df"
    using assms(1) by (simp add: wf_def c) (simp add: shape list_all_iff)
  have row: "map ?h (columns edited_df) =
         [Timestamp \<lparr>year = dyear (event_date f), month = dmonth (event_date f),
                        day = dday (event_date f), hour = thour (event_time f),
                        minute = tminute (event_time f), second = tsecond (event_time f),
                        microsecond = tmicrosecond (event_time f)\<rparr>,
           Str (event_location f), Str (post_code f), Str (senior_ref f),
           Str (referee_2 f), Str (referee_3 f), Str (referee_4 f), Str (referee_5 f),
           Str (referee_6 f)]"
    by (simp add: assms(2) required_cols_def new_row_def combine_def)
  have rows: "itertuples updated_df = itertuples edited_df @ [map ?h (columns edited_df)]"
    unfolding shape by (rule itertuples_snoc [OF assms(1)])
  have nn: "notnull (last (itertuples updated_df) ! 0)"
    by (simp add: rows row)
  show ?thesis
    using d s c n w rows nn unfolding row by blast
qed

theorem add_event_form_appends_witness:
  "wf planner_sample \<and> columns planner_sample = required_cols \<and>
   (\<exists>updated_df.
      data (add_event_form ''s3cret'' sample_enc ''s3cret'' True sample_form planner_sample
              legacy_state) = Some updated_df \<and>
      storage (add_event_form ''s3cret'' sample_enc ''s3cret'' True sample_form planner_sample
              legacy_state) = Some (to_excel sample_enc updated_df) \<and>
      nrows updated_df = 2 \<and>
      itertuples updated_df =
        [[Timestamp sample_time, Str ''Leeds'', Str ''LS1 1AA'', Str ''J. Smith'',
          Str [], Str [], NaN, NaN, PyNone],
         [Timestamp \<lparr>year = 2025, month = 1, day = 18, hour = 9, minute = 0, second = 0,
                       microsecond = 0\<rparr>,
          Str ''York'', Str ''YO1 7HH'', Str ''A. Jones'', Str ''B. Lee'',
          Str [], Str [], Str [], Str []]])"
proof -
  have w: "wf planner_sample" by code_simp
  have c: "columns planner_sample = required_cols" by code_simp
  have n: "nrows planner_sample = 1" by (simp add: planner_sample_def)
  have r: "itertuples planner_sample =
        [[Timestamp sample_time, Str ''Leeds'', Str ''LS1 1AA'', Str ''J. Smith'',
          Str [], Str [], NaN, NaN, PyNone]]" by code_simp
  from add_event_form_appends [OF w c, of "''s3cret''" sample_enc sample_form legacy_state]
  have "\<exists>updated_df.
      data (add_event_form ''s3cret'' sample_enc ''s3cret'' True sample_form planner_sample
              legacy_state) = Some updated_df \<and>
      storage (add_event_form ''s3cret'' sample_enc ''s3cret'' True sample_form planner_sample
              legacy_state) = Some (to_excel sample_enc updated_df) \<and>
      nrows updated_df = 2 \<and>
      itertuples updated_df =
        [[Timestamp sample_time, Str ''Leeds'', Str ''LS1 1AA'', Str ''J. Smith'',
          Str [], Str [], NaN, NaN, PyNone],
         [Timestamp \<lparr>year = 2025, month = 1, day = 18, hour = 9, minute = 0, second = 0,
                       microsecond = 0\<rparr>,
          Str ''York'', Str ''YO1 7HH'', Str ''A. Jones'', Str ''B. Lee'',
          Str [], Str [], Str [], Str []]]"
    unfolding n r by (auto simp: sample_form_def)
  with w c show ?thesis by blast
qed

end
